theory Spec2Isabelle
  imports Complex_Main "HOL-Library.Sublist"
begin

section \<open>JavaScript values and thrown errors\<close>

text \<open>
  A property of a JavaScript object that the code inspects with \<open>typeof\<close> or compares
  with a string literal: absent, a string, or a value of some other type.
\<close>

datatype js_value = JUndefined | JString string | JOther

text \<open>
  A thrown error object, with the two properties the catch blocks read:
  \<open>e.message\<close> and \<open>e.responseJson\<close> (when present, its \<open>status\<close> property).
  \<open>TypeError\<close> is the error the runtime itself raises.
\<close>

record js_error =
  message :: js_value
  responseJson :: "js_value option"

definition TypeError :: "string \<Rightarrow> js_error" where
  "TypeError msg = \<lparr>message = JString msg, responseJson = None\<rparr>"

section \<open>Realm selection (shared/dao/sagas)\<close>

record realm =
  protocol :: string
  hostname :: string
  serverName :: string

record candidate =
  domain :: string
  catalystName :: string
  catalystVersion :: string

datatype ServerConnectionStatus = OK | UNREACHABLE

text \<open>\<open>pingVersion\<close> is \<open>pingResult.result?.env.catalystVersion\<close>.\<close>

record PingResult =
  pingStatus :: ServerConnectionStatus
  pingVersion :: "string option"

text \<open>
  What a run of the saga does to its collaborators, in order: the effects that the
  properties below speak about are the reachability ping, the warning for a rejected query
  parameter, the read of the last realm and the algorithmic candidate scan.
\<close>

datatype effect =
    Ping string
  | WarnInvalidRealm string
  | ReadLastRealm string
  | ReadLastCandidates string
  | PickCandidate "candidate list" "int \<times> int"

text \<open>
  The world around the saga: the redux state it selects from, the query string, the
  persistent storage (one typed map per kind of entry, keyed by the cache key), and the
  collaborators imported from other modules (\<open>semver.gte\<close>, which throws on a
  version that is not valid semver and answers a boolean otherwise,
  \<open>resolveCommsConnectionString\<close>, \<open>ping\<close>, \<open>commsStatusUrl\<close>,
  \<open>createAlgorithm(config).pickCandidate\<close>, \<open>candidateToRealm\<close>), taken as
  parameters. \<open>candidateUpdates\<close> lists what \<open>getAllCatalystCandidates\<close> selects after
  each later \<open>SET_ADDED_CATALYST_CANDIDATES\<close> action; when the list is used up no
  further action arrives.
\<close>

record 'cfg dao_env =
  qsRealm :: "string option"
  qsPosition :: "int \<times> int"
  selectedNetwork :: string
  allCatalystCandidates :: "candidate list"
  candidateUpdates :: "candidate list list"
  storedRealms :: "string \<Rightarrow> realm option"
  storedCandidates :: "string \<Rightarrow> candidate list option"
  minCatalystVersion :: "string option"
  gte :: "string \<Rightarrow> string \<Rightarrow> js_error + bool"
  resolveCommsConnectionString :: "string \<Rightarrow> candidate list \<Rightarrow> realm option"
  commsStatusUrl :: "string \<Rightarrow> string"
  ping :: "string \<Rightarrow> PingResult"
  pickRealmsAlgorithmConfig :: "'cfg list option"
  defaultChainConfig :: "'cfg list"
  pickCandidate :: "'cfg list \<Rightarrow> candidate list \<Rightarrow> int \<times> int \<Rightarrow> candidate"
  candidateToRealm :: "candidate \<Rightarrow> realm"

definition getLastRealmCacheKey :: "string \<Rightarrow> string" where
  "getLastRealmCacheKey network = ''last_realm_'' @ network"

definition getLastRealmCandidatesCacheKey :: "string \<Rightarrow> string" where
  "getLastRealmCandidatesCacheKey network = ''last_realm_candidates_'' @ network"

text \<open>
  \<open>!minCatalystVersion || gte(version, minCatalystVersion)\<close>: the minimum is a
  \<open>string | undefined\<close>, and the empty string is falsy like \<open>undefined\<close>; \<open>gte\<close> is
  called, and may throw, only when a minimum is configured.
\<close>

definition versionAllowed :: "'cfg dao_env \<Rightarrow> string \<Rightarrow> js_error + bool" where
  "versionAllowed env version =
     (case minCatalystVersion env of
        None \<Rightarrow> Inr True
      | Some minVersion \<Rightarrow> if minVersion = [] then Inr True else gte env version minVersion)"

text \<open>
  \<open>pickCatalystRealm\<close>: the configured chain, or the default one when the configuration
  is missing or empty; the algorithm scans the candidates and \<open>candidateToRealm\<close> is
  called on its pick, but the generator has no \<open>return\<close>: the value of the
  \<open>yield call(candidateToRealm, ...)\<close> is dropped and the saga returns \<open>undefined\<close>.
\<close>

definition chainConfig :: "'cfg dao_env \<Rightarrow> 'cfg list" where
  "chainConfig env =
     (case pickRealmsAlgorithmConfig env of
        None \<Rightarrow> defaultChainConfig env
      | Some config \<Rightarrow> if config = [] then defaultChainConfig env else config)"

definition algorithmPick :: "'cfg dao_env \<Rightarrow> candidate list \<Rightarrow> realm" where
  "algorithmPick env candidates =
     candidateToRealm env (pickCandidate env (chainConfig env) candidates (qsPosition env))"

definition pickCatalystRealm :: "'cfg dao_env \<Rightarrow> candidate list \<Rightarrow> effect list \<times> realm option" where
  "pickCatalystRealm env candidates =
     (let picked = algorithmPick env candidates
      in ([PickCandidate candidates (qsPosition env)], None))"

text \<open>
  \<open>waitForCandidates\<close>: loops while the selected candidate list is empty, blocking on
  the next \<open>SET_ADDED_CATALYST_CANDIDATES\<close>. \<open>None\<close> is the saga that never resumes.
\<close>

fun waitForCandidates :: "candidate list \<Rightarrow> candidate list list \<Rightarrow> candidate list option" where
  "waitForCandidates current updates =
     (if current \<noteq> [] then Some current
      else (case updates of
              [] \<Rightarrow> None
            | u # us \<Rightarrow> waitForCandidates u us))"

text \<open>
  \<open>pingedVersion\<close> is \<open>pingResult.result?.env.catalystVersion ?? '0.0.0'\<close> for the ping
  of the realm's status url.
\<close>

definition pingedVersion :: "'cfg dao_env \<Rightarrow> realm \<Rightarrow> string" where
  "pingedVersion env r =
     (case pingVersion (ping env (commsStatusUrl env (hostname r))) of
        None \<Rightarrow> ''0.0.0''
      | Some v \<Rightarrow> v)"

text \<open>
  \<open>checkValidRealm\<close>: the \<open>&&\<close> evaluates the version test only after a ping answered
  OK, so that is the only place where the check can throw.
\<close>

definition checkValidRealm :: "'cfg dao_env \<Rightarrow> realm \<Rightarrow> effect list \<times> (js_error + bool)" where
  "checkValidRealm env r =
     (if protocol r = ''v2'' then
        (if hostname r = [] then ([], Inr False)
         else
           (let url = commsStatusUrl env (hostname r);
                pingResult = ping env url
            in ([Ping url],
                if pingStatus pingResult = OK then versionAllowed env (pingedVersion env r)
                else Inr False)))
      else ([], Inr True))"

definition getConfiguredRealm ::
  "'cfg dao_env \<Rightarrow> candidate list \<Rightarrow> effect list \<times> (js_error + realm option)" where
  "getConfiguredRealm env candidates =
     (case qsRealm env of
        None \<Rightarrow> ([], Inr None)
      | Some realmName \<Rightarrow>
          if realmName = [] then ([], Inr None)
          else
            (case resolveCommsConnectionString env realmName candidates of
               None \<Rightarrow> ([WarnInvalidRealm realmName], Inr None)
             | Some r \<Rightarrow>
                 (case checkValidRealm env r of
                    (t, Inl e) \<Rightarrow> (t, Inl e)
                  | (t, Inr isValid) \<Rightarrow>
                      if isValid then (t, Inr (Some r))
                      else (t @ [WarnInvalidRealm realmName], Inr None))))"

text \<open>
  \<open>selectRealm\<close>. The outer \<open>option\<close> is \<open>None\<close> when the saga blocks for ever in
  \<open>waitForCandidates\<close>. In the source the \<open>?? []\<close> after the read of the cached
  candidates binds to the \<open>call\<close> effect (never nullish), not to the value read, so a
  missing entry reaches the array spread and raises a \<open>TypeError\<close>. The three tiers
  are joined by \<open>||\<close>: a later one runs only when the earlier ones gave nothing, and
  an exception in the first ends the saga.
\<close>

definition selectRealm :: "'cfg dao_env \<Rightarrow> (effect list \<times> (js_error + realm option)) option" where
  "selectRealm env =
     (case waitForCandidates (allCatalystCandidates env) (candidateUpdates env) of
        None \<Rightarrow> None
      | Some allCandidates \<Rightarrow>
          Some
            (let network = selectedNetwork env;
                 t0 = [ReadLastCandidates (getLastRealmCandidatesCacheKey network)]
             in case storedCandidates env (getLastRealmCandidatesCacheKey network) of
                  None \<Rightarrow> (t0, Inl (TypeError ''cachedCandidates is not iterable''))
                | Some cachedCandidates \<Rightarrow>
                    (case getConfiguredRealm env (allCandidates @ cachedCandidates) of
                       (t1, Inl e) \<Rightarrow> (t0 @ t1, Inl e)
                     | (t1, Inr (Some r)) \<Rightarrow> (t0 @ t1, Inr (Some r))
                     | (t1, Inr None) \<Rightarrow>
                         (let t2 = [ReadLastRealm (getLastRealmCacheKey network)]
                          in case storedRealms env (getLastRealmCacheKey network) of
                               Some r \<Rightarrow> (t0 @ t1 @ t2, Inr (Some r))
                             | None \<Rightarrow>
                                 (case pickCatalystRealm env allCandidates of
                                    (t3, r3) \<Rightarrow> (t0 @ t1 @ t2 @ t3, Inr r3))))))"





section \<open>World instance connection (comms/v2/LighthouseWorldInstanceConnection)\<close>

subsection \<open>The transport\<close>

text \<open>
  An entry of \<open>peer.currentRooms\<close>: the guard \<open>isSameRoom\<close> accepts a room id string
  or a \<open>Room\<close> object, compared by its \<open>id\<close>.
\<close>

datatype room_ref = RoomId string | RoomObject string

datatype peer_call =
    AwaitConnectionEstablished nat
  | JoinRoom string
  | LeaveRoom string
  | SendMessage string "nat list" string
  | SetPeerPosition string "real \<times> real \<times> real"
  | SetPreferedIslandId string
  | Dispose

text \<open>
  The peer of \<open>@dcl/catalyst-peer\<close> is a collaborator outside the repository. Its
  observable state is the connected count and the joined rooms; \<open>rejects\<close> says which
  calls it fails and with what error, \<open>establishedCount\<close> and \<open>disposedCount\<close> are
  the connected counts that a successful \<open>awaitConnectionEstablished\<close> and
  \<open>dispose\<close> leave, \<open>roomsAsObjects\<close> whether it lists a joined room as a \<open>Room\<close>
  object or as its id, and \<open>calls\<close> records every call made, in order.
\<close>

record peer =
  connectedCount :: nat
  currentRooms :: "room_ref list"
  roomsAsObjects :: bool
  rejects :: "peer_call \<Rightarrow> js_error option"
  establishedCount :: nat
  disposedCount :: nat
  calls :: "peer_call list"

fun roomOf :: "room_ref \<Rightarrow> string" where
  "roomOf (RoomId r) = r"
| "roomOf (RoomObject r) = r"

text \<open>
  One call on the peer: a rejected call changes nothing but the record of calls; an
  accepted \<open>joinRoom\<close> lists the room (once), an accepted \<open>leaveRoom\<close> removes it.
\<close>

definition peerEffect :: "peer_call \<Rightarrow> peer \<Rightarrow> peer" where
  "peerEffect call p =
     (case call of
        AwaitConnectionEstablished _ \<Rightarrow> p\<lparr>connectedCount := establishedCount p\<rparr>
      | JoinRoom r \<Rightarrow>
          if r \<in> roomOf ` set (currentRooms p) then p
          else p\<lparr>currentRooms :=
                   currentRooms p @ [if roomsAsObjects p then RoomObject r else RoomId r]\<rparr>
      | LeaveRoom r \<Rightarrow> p\<lparr>currentRooms := filter (\<lambda>c. roomOf c \<noteq> r) (currentRooms p)\<rparr>
      | Dispose \<Rightarrow> p\<lparr>connectedCount := disposedCount p\<rparr>
      | _ \<Rightarrow> p)"

definition peerCall :: "peer_call \<Rightarrow> peer \<Rightarrow> (js_error + unit) \<times> peer" where
  "peerCall call p =
     (let p' = p\<lparr>calls := calls p @ [call]\<rparr>
      in case rejects p call of
           Some e \<Rightarrow> (Inl e, p')
         | None \<Rightarrow> (Inr (), peerEffect call p'))"

text \<open>
  \<open>Promise.all\<close> over calls that have all been started: every call runs, and the
  result rejects with the first rejection.
\<close>

fun peerCalls :: "peer_call list \<Rightarrow> peer \<Rightarrow> (js_error + unit) \<times> peer" where
  "peerCalls [] p = (Inr (), p)"
| "peerCalls (call # rest) p =
     (case peerCall call p of
        (r, p') \<Rightarrow>
          (case peerCalls rest p' of
             (rs, p'') \<Rightarrow> ((case r of Inl e \<Rightarrow> Inl e | Inr _ \<Rightarrow> rs), p'')))"

subsection \<open>The connection\<close>

record CommsStatus =
  status :: string
  connectedPeers :: nat

text \<open>
  The fields of the class that the modelled methods use. \<open>statusLog\<close> is the sequence
  of invocations of the \<open>statusHandler\<close> given to the constructor: the argument,
  together with the value of \<open>this.peer\<close> at the moment of the invocation.
  \<open>peer\<close> is \<open>None\<close> only inside the constructor, before the first assignment.
\<close>

record connection =
  peer :: "peer option"
  rooms :: "string list"
  currentRealm :: realm
  lighthouseUrl :: string
  preferedIslandId :: "string option"
  statusLog :: "(CommsStatus \<times> peer option) list"

definition statusHandler :: "CommsStatus \<Rightarrow> connection \<Rightarrow> connection" where
  "statusHandler st c = c\<lparr>statusLog := statusLog c @ [(st, peer c)]\<rparr>"

definition connectedPeersCount :: "connection \<Rightarrow> nat" where
  "connectedPeersCount c = (case peer c of None \<Rightarrow> 0 | Some p \<Rightarrow> connectedCount p)"

text \<open>
  \<open>initializePeer\<close>; \<open>created\<close> is the peer that \<open>createPeer\<close> constructs. The status
  callback that \<open>createPeer\<close> hands to the new peer is \<open>peerStatusHandler\<close>.
\<close>

definition peerStatusHandler :: "string \<Rightarrow> connection \<Rightarrow> connection" where
  "peerStatusHandler st c =
     statusHandler \<lparr>status = st, connectedPeers = connectedPeersCount c\<rparr> c"

definition initializePeer :: "peer \<Rightarrow> connection \<Rightarrow> connection" where
  "initializePeer created c =
     (let c1 = statusHandler \<lparr>status = ''connecting'', connectedPeers = connectedPeersCount c\<rparr> c;
          p = (case preferedIslandId c1 of
                 None \<Rightarrow> created
               | Some island \<Rightarrow>
                   if island = [] then created
                   else created\<lparr>calls := calls created @ [SetPreferedIslandId island]\<rparr>)
      in c1\<lparr>peer := Some p\<rparr>)"

definition newConnection :: "realm \<Rightarrow> string \<Rightarrow> string option \<Rightarrow> peer \<Rightarrow> connection" where
  "newConnection r url island created =
     initializePeer created
       \<lparr>peer = None, rooms = [], currentRealm = r, lighthouseUrl = url,
        preferedIslandId = island, statusLog = []\<rparr>"

text \<open>
  \<open>connect\<close>. The \<open>try\<close> block reads the connected count and, when it is zero, awaits
  the establishment for 60000 ms; the \<open>catch\<close> block reports and rethrows.
  \<open>connectedCount()\<close> is a plain read of the peer's state.
\<close>

definition connectFailed :: "js_error \<Rightarrow> connection \<Rightarrow> (js_error + bool) \<times> connection" where
  "connectFailed e c =
     (Inl e,
      statusHandler
        \<lparr>status = (if responseJson e = Some (JString ''layer_is_full'')
                    then ''realm-full'' else ''error''),
         connectedPeers = connectedPeersCount c\<rparr> c)"

definition connectSucceeded :: "connection \<Rightarrow> (js_error + bool) \<times> connection" where
  "connectSucceeded c =
     (Inr True,
      statusHandler \<lparr>status = ''connected'', connectedPeers = connectedPeersCount c\<rparr> c)"

definition connect :: "connection \<Rightarrow> (js_error + bool) \<times> connection" where
  "connect c =
     (case peer c of
        None \<Rightarrow> connectFailed (TypeError ''this.peer is undefined'') c
      | Some p \<Rightarrow>
          if connectedCount p = 0 then
            (case peerCall (AwaitConnectionEstablished 60000) p of
               (Inl e, p') \<Rightarrow> connectFailed e (c\<lparr>peer := Some p'\<rparr>)
             | (Inr _, p') \<Rightarrow> connectSucceeded (c\<lparr>peer := Some p'\<rparr>))
          else connectSucceeded c)"

text \<open>
  \<open>syncRoomsWithPeer\<close>: the joins for the desired rooms that are not among the current
  ones, then the leaves for the current rooms that are id strings and not desired.
\<close>

definition isSameRoom :: "string \<Rightarrow> room_ref \<Rightarrow> bool" where
  "isSameRoom roomId roomIdOrObject =
     (case roomIdOrObject of RoomId s \<Rightarrow> s = roomId | RoomObject i \<Rightarrow> i = roomId)"

definition joining :: "string list \<Rightarrow> room_ref list \<Rightarrow> peer_call list" where
  "joining desired current =
     map JoinRoom (filter (\<lambda>room. \<not> list_ex (isSameRoom room) current) desired)"

definition leaving :: "string list \<Rightarrow> room_ref list \<Rightarrow> peer_call list" where
  "leaving desired current =
     concat (map (\<lambda>cur. if \<not> list_ex (\<lambda>room. isSameRoom room cur) desired
                         then (case cur of RoomId s \<Rightarrow> [LeaveRoom s] | RoomObject _ \<Rightarrow> [])
                         else []) current)"

definition syncRoomsWithPeer :: "connection \<Rightarrow> (js_error + unit) \<times> connection" where
  "syncRoomsWithPeer c =
     (case peer c of
        None \<Rightarrow> (Inl (TypeError ''this.peer is undefined''), c)
      | Some p \<Rightarrow>
          (case peerCalls (joining (rooms c) (currentRooms p) @ leaving (rooms c) (currentRooms p)) p of
             (r, p') \<Rightarrow> (r, c\<lparr>peer := Some p'\<rparr>)))"

definition setTopics :: "string list \<Rightarrow> connection \<Rightarrow> (js_error + unit) \<times> connection" where
  "setTopics rs c = syncRoomsWithPeer (c\<lparr>rooms := rs\<rparr>)"

text \<open>
  \<open>changeRealm\<close>: report, dispose of the current peer, store the realm and the url,
  create the new peer, connect, and join the desired rooms again. (The optional
  \<open>onIslandChange\<close> notification of the configuration does not touch the connection.)
\<close>

definition changeRealm :: "realm \<Rightarrow> string \<Rightarrow> peer \<Rightarrow> connection \<Rightarrow> (js_error + unit) \<times> connection" where
  "changeRealm r url created c =
     (let c1 = statusHandler \<lparr>status = ''connecting'', connectedPeers = connectedPeersCount c\<rparr> c;
          disposed =
            (case peer c1 of
               None \<Rightarrow> (Inr (), c1)
             | Some p \<Rightarrow> (case peerCall Dispose p of (res, p') \<Rightarrow> (res, c1\<lparr>peer := Some p'\<rparr>)))
      in case disposed of
           (Inl e, c2) \<Rightarrow> (Inl e, c2)
         | (Inr _, c2) \<Rightarrow>
             (let c3 = initializePeer created (c2\<lparr>currentRealm := r, lighthouseUrl := url\<rparr>)
              in case connect c3 of
                   (Inl e, c4) \<Rightarrow> (Inl e, c4)
                 | (Inr _, c4) \<Rightarrow> syncRoomsWithPeer c4))"

text \<open>
  \<open>sendData\<close>: \<open>payload\<close> is the serialized comms message and \<open>typeName\<close> the name of
  the peer message type.
\<close>

definition roomNotJoined :: "js_error \<Rightarrow> bool" where
  "roomNotJoined e =
     (case message e of
        JString m \<Rightarrow> prefix ''cannot send a message in a room not joined'' m
      | _ \<Rightarrow> False)"

definition sendData :: "string \<Rightarrow> nat list \<Rightarrow> string \<Rightarrow> connection \<Rightarrow> (js_error + unit) \<times> connection" where
  "sendData topic payload typeName c =
     (case peer c of
        None \<Rightarrow> (Inl (TypeError ''this.peer is undefined''), c)
      | Some p \<Rightarrow>
          (case peerCall (SendMessage topic payload typeName) p of
             (Inr _, p') \<Rightarrow> (Inr (), c\<lparr>peer := Some p'\<rparr>)
           | (Inl e, p') \<Rightarrow>
               (if roomNotJoined e then Inr () else Inl e, c\<lparr>peer := Some p'\<rparr>)))"

subsection \<open>Inbound messages\<close>

text \<open>
  The protobuf messages of \<open>comms_pb\<close>. \<open>PositionData\<close> is a record with one field
  per getter; the other payloads are the constructors of the \<open>oneof\<close>, carrying their
  fields in the order of the getters used below. \<open>NO_DATA n\<close> is every data case other
  than the seven the \<open>switch\<close> names: \<open>DATA_NOT_SET\<close> or a number unknown to this
  version.
\<close>

record PositionData =
  positionX :: real
  positionY :: real
  positionZ :: real
  rotationX :: real
  rotationY :: real
  rotationZ :: real
  rotationW :: real
  immediate :: bool

type_synonym Position = "real \<times> real \<times> real \<times> real \<times> real \<times> real \<times> real \<times> bool"

datatype PbProfileType = PB_LOCAL | PB_DEPLOYED

datatype ProfileType = LOCAL | DEPLOYED

datatype message_data =
    CHAT_DATA string string
  | POSITION_DATA PositionData
  | SCENE_DATA string string
  | PROFILE_DATA string string PbProfileType
  | VOICE_DATA "nat list" int
  | PROFILE_REQUEST_DATA string string
  | PROFILE_RESPONSE_DATA string
  | NO_DATA nat

record CommsMessage =
  messageTime :: real
  messageData :: message_data

datatype json = JNull | JBool bool | JNumber int | JText string | JArray "json list"
  | JObject "(string \<times> json) list"

datatype package_data =
    ChatMessage string string
  | PositionMessage Position
  | BusMessage string string
  | ProfileVersion string string ProfileType
  | VoiceFragment "nat list" int
  | ProfileRequest string "string option"
  | ProfileResponse json

record Package =
  sender :: string
  time :: real
  type :: string
  data :: package_data

datatype handler =
    sceneMessageHandler
  | chatHandler
  | profileHandler
  | positionHandler
  | voiceHandler
  | profileResponseHandler
  | profileRequestHandler

datatype log_entry =
    WarnUnknownType nat
  | ErrorProcessing string string js_error

text \<open>
  What surrounds the packet callback: the generated decoder, \<open>JSON.parse\<close>, and the
  handlers registered on the connection, each of which returns or throws.
\<close>

record comms_env =
  deserializeBinary :: "nat list \<Rightarrow> js_error + CommsMessage"
  JSON_parse :: "string \<Rightarrow> js_error + json"
  handlerThrows :: "handler \<Rightarrow> Package \<Rightarrow> js_error option"

text \<open>
  The receiving side of the connection: its peer, the handler invocations made so far
  and the lines logged so far.
\<close>

record receiver =
  receiverPeer :: peer
  handled :: "(handler \<times> Package) list"
  logged :: "log_entry list"

definition createPackage :: "string \<Rightarrow> CommsMessage \<Rightarrow> string \<Rightarrow> package_data \<Rightarrow> Package" where
  "createPackage from commsMessage packageType d =
     \<lparr>sender = from, time = messageTime commsMessage, type = packageType, data = d\<rparr>"

definition createPositionData :: "Position \<Rightarrow> PositionData" where
  "createPositionData p =
     (case p of (p0, p1, p2, p3, p4, p5, p6, p7) \<Rightarrow>
        \<lparr>positionX = p0, positionY = p1, positionZ = p2, rotationX = p3, rotationY = p4,
         rotationZ = p5, rotationW = p6, immediate = p7\<rparr>)"

definition mapToPositionMessage :: "PositionData \<Rightarrow> Position" where
  "mapToPositionMessage positionData =
     (positionX positionData, positionY positionData, positionZ positionData,
      rotationX positionData, rotationY positionData, rotationZ positionData,
      rotationW positionData, immediate positionData)"

definition mapToPackageProfileType :: "PbProfileType \<Rightarrow> ProfileType" where
  "mapToPackageProfileType profileType = (if profileType = PB_LOCAL then LOCAL else DEPLOYED)"

definition mapToPackageProfileRequest :: "string \<Rightarrow> string \<Rightarrow> package_data" where
  "mapToPackageProfileRequest userId versionData =
     ProfileRequest userId (if versionData \<noteq> [] then Some versionData else None)"

definition mapToPackageVoice :: "nat list \<Rightarrow> int \<Rightarrow> int \<Rightarrow> package_data" where
  "mapToPackageVoice encoded index fallbackIndex =
     VoiceFragment encoded (if index = 0 then fallbackIndex else index)"

definition invoke :: "comms_env \<Rightarrow> handler \<Rightarrow> Package \<Rightarrow> receiver \<Rightarrow> (js_error + unit) \<times> receiver" where
  "invoke env h pkg c =
     ((case handlerThrows env h pkg of None \<Rightarrow> Inr () | Some e \<Rightarrow> Inl e),
      c\<lparr>handled := handled c @ [(h, pkg)]\<rparr>)"

text \<open>The \<open>switch\<close> of \<open>peerCallback\<close>, inside the \<open>try\<close>.\<close>

definition dispatch ::
  "comms_env \<Rightarrow> string \<Rightarrow> int \<Rightarrow> CommsMessage \<Rightarrow> receiver \<Rightarrow> (js_error + unit) \<times> receiver" where
  "dispatch env from sequenceId commsMessage c =
     (case messageData commsMessage of
        CHAT_DATA messageId text \<Rightarrow>
          invoke env chatHandler
            (createPackage from commsMessage ''chat'' (ChatMessage messageId text)) c
      | POSITION_DATA positionData \<Rightarrow>
          (let positionMessage = mapToPositionMessage positionData
           in case peerCall
                     (SetPeerPosition from
                        (positionX positionData, positionY positionData, positionZ positionData))
                     (receiverPeer c) of
                (Inl e, p') \<Rightarrow> (Inl e, c\<lparr>receiverPeer := p'\<rparr>)
              | (Inr _, p') \<Rightarrow>
                  invoke env positionHandler
                    (createPackage from commsMessage ''position'' (PositionMessage positionMessage))
                    (c\<lparr>receiverPeer := p'\<rparr>))
      | SCENE_DATA sceneId text \<Rightarrow>
          invoke env sceneMessageHandler
            (createPackage from commsMessage ''chat'' (BusMessage sceneId text)) c
      | PROFILE_DATA userId profileVersion profileType \<Rightarrow>
          invoke env profileHandler
            (createPackage from commsMessage ''profile''
               (ProfileVersion userId profileVersion (mapToPackageProfileType profileType))) c
      | VOICE_DATA encodedSamples index \<Rightarrow>
          invoke env voiceHandler
            (createPackage from commsMessage ''voice''
               (mapToPackageVoice encodedSamples index sequenceId)) c
      | PROFILE_REQUEST_DATA userId profileVersion \<Rightarrow>
          invoke env profileRequestHandler
            (createPackage from commsMessage ''profileRequest''
               (mapToPackageProfileRequest userId profileVersion)) c
      | PROFILE_RESPONSE_DATA serializedProfile \<Rightarrow>
          (case JSON_parse env serializedProfile of
             Inl e \<Rightarrow> (Inl e, c)
           | Inr profile \<Rightarrow>
               invoke env profileResponseHandler
                 (createPackage from commsMessage ''profileResponse'' (ProfileResponse profile)) c)
      | NO_DATA n \<Rightarrow> (Inr (), c\<lparr>logged := logged c @ [WarnUnknownType n]\<rparr>))"

text \<open>
  \<open>peerCallback\<close>: decode and dispatch inside \<open>try\<close>; the \<open>catch\<close> logs the error
  with the sender and the topic and does not rethrow.
\<close>

definition peerCallback ::
  "comms_env \<Rightarrow> string \<Rightarrow> string \<Rightarrow> nat list \<Rightarrow> int \<Rightarrow> receiver \<Rightarrow> (js_error + unit) \<times> receiver" where
  "peerCallback env from room payload sequenceId c =
     (case (case deserializeBinary env payload of
              Inl e \<Rightarrow> (Inl e, c)
            | Inr commsMessage \<Rightarrow> dispatch env from sequenceId commsMessage c) of
        (Inl e, c') \<Rightarrow> (Inr (), c'\<lparr>logged := logged c' @ [ErrorProcessing from room e]\<rparr>)
      | (Inr u, c') \<Rightarrow> (Inr u, c'))"

text \<open>
  The kind of a decoded message, named as the message kinds are named; \<open>None\<close> for a
  data case the \<open>switch\<close> does not know. \<open>handlerOf\<close> is the handler of each case.
\<close>

fun kindOf :: "message_data \<Rightarrow> string option" where
  "kindOf (CHAT_DATA _ _) = Some ''chat''"
| "kindOf (POSITION_DATA _) = Some ''position''"
| "kindOf (SCENE_DATA _ _) = Some ''scene''"
| "kindOf (PROFILE_DATA _ _ _) = Some ''profile''"
| "kindOf (VOICE_DATA _ _) = Some ''voice''"
| "kindOf (PROFILE_REQUEST_DATA _ _) = Some ''profileRequest''"
| "kindOf (PROFILE_RESPONSE_DATA _) = Some ''profileResponse''"
| "kindOf (NO_DATA _) = None"

fun handlerOf :: "message_data \<Rightarrow> handler option" where
  "handlerOf (CHAT_DATA _ _) = Some chatHandler"
| "handlerOf (POSITION_DATA _) = Some positionHandler"
| "handlerOf (SCENE_DATA _ _) = Some sceneMessageHandler"
| "handlerOf (PROFILE_DATA _ _ _) = Some profileHandler"
| "handlerOf (VOICE_DATA _ _) = Some voiceHandler"
| "handlerOf (PROFILE_REQUEST_DATA _ _) = Some profileRequestHandler"
| "handlerOf (PROFILE_RESPONSE_DATA _) = Some profileResponseHandler"
| "handlerOf (NO_DATA _) = None"

section \<open>Predicates used to state the properties\<close>

text \<open>
  A status report is faithful when the count it carries is the connected count of the
  peer the connection held at that moment, or 0 when it held none.
\<close>

definition faithful :: "CommsStatus \<times> peer option \<Rightarrow> bool" where
  "faithful entry =
     (connectedPeers (fst entry) = (case snd entry of None \<Rightarrow> 0 | Some p \<Rightarrow> connectedCount p))"

text \<open>
  The payload of a decoded message maps into a package without an exception: the
  serialized profile of a profile response parses, and the peer accepts the position
  update that precedes the position handler. The other mappings cannot throw.
\<close>

definition payloadMaps :: "comms_env \<Rightarrow> string \<Rightarrow> receiver \<Rightarrow> message_data \<Rightarrow> bool" where
  "payloadMaps env from c d =
     (case d of
        PROFILE_RESPONSE_DATA serializedProfile \<Rightarrow>
          (case JSON_parse env serializedProfile of Inl _ \<Rightarrow> False | Inr _ \<Rightarrow> True)
      | POSITION_DATA positionData \<Rightarrow>
          rejects (receiverPeer c)
            (SetPeerPosition from
               (positionX positionData, positionY positionData, positionZ positionData)) = None
      | _ \<Rightarrow> True)"


text \<open>The ids that \<open>leaving\<close> asks the peer to leave.\<close>

definition leaveIds :: "string list \<Rightarrow> room_ref list \<Rightarrow> string list" where
  "leaveIds desired current =
     concat (map (\<lambda>cur. case cur of
                           RoomId s \<Rightarrow> if s \<in> set desired then [] else [s]
                         | RoomObject _ \<Rightarrow> []) current)"

section \<open>Concrete inputs\<close>

text \<open>
  A comparison to stand for \<open>semver.gte\<close> where a concrete one is needed, on versions
  without pre-release or build part: a version is three dot-separated decimal numbers
  without leading zeros, compared number by number; on any other string the comparison
  throws, as \<open>semver\<close> does with \<open>Invalid Version\<close>.
\<close>

fun splitDots :: "string \<Rightarrow> string \<Rightarrow> string list" where
  "splitDots acc [] = [rev acc]"
| "splitDots acc (c # cs) =
     (if c = CHR ''.'' then rev acc # splitDots [] cs else splitDots (c # acc) cs)"

definition decimal :: "string \<Rightarrow> nat" where
  "decimal ds = foldl (\<lambda>n c. 10 * n + (of_char c - 48)) 0 ds"

definition numericIdentifier :: "string \<Rightarrow> bool" where
  "numericIdentifier ds =
     (ds \<noteq> [] \<and> list_all (\<lambda>c. c \<in> set ''0123456789'') ds \<and> (ds = ''0'' \<or> hd ds \<noteq> CHR ''0''))"

definition parseVersion :: "string \<Rightarrow> nat list option" where
  "parseVersion v =
     (case splitDots [] v of
        [major, minor, patch] \<Rightarrow>
          if numericIdentifier major \<and> numericIdentifier minor \<and> numericIdentifier patch
          then Some [decimal major, decimal minor, decimal patch]
          else None
      | _ \<Rightarrow> None)"

fun numbersGte :: "nat list \<Rightarrow> nat list \<Rightarrow> bool" where
  "numbersGte _ [] = True"
| "numbersGte [] (y # ys) = False"
| "numbersGte (x # xs) (y # ys) = (y < x \<or> (x = y \<and> numbersGte xs ys))"

definition semverGte :: "string \<Rightarrow> string \<Rightarrow> js_error + bool" where
  "semverGte v m =
     (case parseVersion v of
        None \<Rightarrow> Inl (TypeError (''Invalid Version: '' @ v))
      | Some vs \<Rightarrow>
          (case parseVersion m of
             None \<Rightarrow> Inl (TypeError (''Invalid Version: '' @ m))
           | Some ms \<Rightarrow> Inr (numbersGte vs ms)))"

definition candA :: candidate where
  "candA = \<lparr>domain = ''a.example'', catalystName = ''A'', catalystVersion = ''1.0.0''\<rparr>"

definition candB :: candidate where
  "candB = \<lparr>domain = ''b.example'', catalystName = ''B'', catalystVersion = ''0.5.0''\<rparr>"

definition realmOf :: "candidate \<Rightarrow> realm" where
  "realmOf c = \<lparr>protocol = ''v2'', hostname = domain c, serverName = catalystName c\<rparr>"

definition byName :: "string \<Rightarrow> candidate list \<Rightarrow> realm option" where
  "byName n cs = map_option realmOf (find (\<lambda>c. catalystName c = n) cs)"

text \<open>
  A session on mainnet with two live candidates, realm A cached as the last realm, the
  candidate list cached, a minimum version of 1.0.0 and every ping answered.
\<close>

definition envBase :: "string dao_env" where
  "envBase =
     \<lparr>qsRealm = None, qsPosition = (0, 0), selectedNetwork = ''mainnet'',
      allCatalystCandidates = [candA, candB], candidateUpdates = [],
      storedRealms = (\<lambda>k. if k = ''last_realm_mainnet'' then Some (realmOf candA) else None),
      storedCandidates =
        (\<lambda>k. if k = ''last_realm_candidates_mainnet'' then Some [candA] else None),
      minCatalystVersion = Some ''1.0.0'', gte = semverGte,
      resolveCommsConnectionString = byName,
      commsStatusUrl = (\<lambda>h. ''https://'' @ h @ ''/comms/status''),
      ping = (\<lambda>u. \<lparr>pingStatus = OK, pingVersion = Some ''1.2.0''\<rparr>),
      pickRealmsAlgorithmConfig = None,
      defaultChainConfig = [''LARGE_LATENCY'', ''LOAD_BALANCING''],
      pickCandidate = (\<lambda>cfg cs pos. case cs of [] \<Rightarrow> candA | c # _ \<Rightarrow> c),
      candidateToRealm = realmOf\<rparr>"

text \<open>The same session with \<open>?realm=B\<close> in the URL.\<close>

definition envQuery :: "string dao_env" where
  "envQuery = envBase\<lparr>qsRealm := Some ''B''\<rparr>"

text \<open>The same session with no live candidate, and none arriving.\<close>

definition envBlocked :: "string dao_env" where
  "envBlocked = envBase\<lparr>allCatalystCandidates := []\<rparr>"

text \<open>The same session with no last realm cached.\<close>

definition envScan :: "string dao_env" where
  "envScan = envBase\<lparr>storedRealms := (\<lambda>k. None)\<rparr>"

text \<open>A candidate whose version is not valid semver (no patch number).\<close>

definition candShort :: candidate where
  "candShort = \<lparr>domain = ''c.example'', catalystName = ''C'', catalystVersion = ''1.0''\<rparr>"

text \<open>Errors a peer may reject with.\<close>

definition notJoinedError :: js_error where
  "notJoinedError =
     \<lparr>message = JString ''cannot send a message in a room not joined (island-7)'',
      responseJson = None\<rparr>"

definition timeoutError :: js_error where
  "timeoutError = \<lparr>message = JString ''Awaiting connection timed out'', responseJson = None\<rparr>"

definition layerFullError :: js_error where
  "layerFullError =
     \<lparr>message = JString ''Request failed'', responseJson = Some (JString ''layer_is_full'')\<rparr>"

text \<open>
  A peer with no connection yet, in the rooms \<open>old\<close> (listed by id) and \<open>island\<close>
  (listed as an object), that rejects a message to the topic \<open>left\<close> as sent to a room
  not joined and a message to the topic \<open>down\<close> with another error.
\<close>

definition peerIdle :: peer where
  "peerIdle =
     \<lparr>connectedCount = 0, currentRooms = [RoomId ''old'', RoomObject ''island''],
      roomsAsObjects = False,
      rejects =
        (\<lambda>call. case call of
                   SendMessage topic _ _ \<Rightarrow>
                     if topic = ''left'' then Some notJoinedError
                     else if topic = ''down'' then Some timeoutError else None
                 | _ \<Rightarrow> None),
      establishedCount = 2, disposedCount = 0, calls = []\<rparr>"

definition peerBusy :: peer where
  "peerBusy = peerIdle\<lparr>connectedCount := 3\<rparr>"

definition peerFull :: peer where
  "peerFull =
     peerIdle\<lparr>rejects :=
       (\<lambda>call. case call of AwaitConnectionEstablished _ \<Rightarrow> Some layerFullError | _ \<Rightarrow> None)\<rparr>"

definition peerTimeout :: peer where
  "peerTimeout =
     peerIdle\<lparr>rejects :=
       (\<lambda>call. case call of AwaitConnectionEstablished _ \<Rightarrow> Some timeoutError | _ \<Rightarrow> None)\<rparr>"

definition connectionWith :: "peer \<Rightarrow> connection" where
  "connectionWith p = newConnection (realmOf candA) ''https://a.example/comms'' None p"

text \<open>
  A decoder that knows five payloads, a JSON parser that accepts \<open>{}\<close> only, and
  handlers that return.
\<close>

definition chatMessage :: CommsMessage where
  "chatMessage = \<lparr>messageTime = 1000, messageData = CHAT_DATA ''m1'' ''hello''\<rparr>"

definition sceneMessage :: CommsMessage where
  "sceneMessage = \<lparr>messageTime = 1001, messageData = SCENE_DATA ''scene-1'' ''ping''\<rparr>"

definition brokenProfileResponse :: CommsMessage where
  "brokenProfileResponse = \<lparr>messageTime = 1002, messageData = PROFILE_RESPONSE_DATA ''{''\<rparr>"

definition futureMessage :: CommsMessage where
  "futureMessage = \<lparr>messageTime = 1003, messageData = NO_DATA 9\<rparr>"

definition syntaxError :: js_error where
  "syntaxError = \<lparr>message = JString ''Unexpected end of JSON input'', responseJson = None\<rparr>"

definition decodeError :: js_error where
  "decodeError = \<lparr>message = JString ''Assertion failed'', responseJson = None\<rparr>"

definition commsEnv :: comms_env where
  "commsEnv =
     \<lparr>deserializeBinary =
        (\<lambda>bytes. if bytes = [1] then Inr chatMessage
                  else if bytes = [5] then Inr sceneMessage
                  else if bytes = [8] then Inr brokenProfileResponse
                  else if bytes = [9] then Inr futureMessage
                  else Inl decodeError),
      JSON_parse = (\<lambda>s. if s = ''{}'' then Inr (JObject []) else Inl syntaxError),
      handlerThrows = (\<lambda>h pkg. None)\<rparr>"

definition receiverIdle :: receiver where
  "receiverIdle = \<lparr>receiverPeer = peerIdle, handled = [], logged = []\<rparr>"

section \<open>Realm selection: the order of the tiers\<close>

lemmas example_defs =
  envBase_def envQuery_def envBlocked_def envScan_def candA_def candB_def candShort_def
  realmOf_def byName_def getLastRealmCacheKey_def getLastRealmCandidatesCacheKey_def




lemma selectRealm_missing_cache:
  assumes "waitForCandidates (allCatalystCandidates env) (candidateUpdates env) = Some allCandidates"
      and "storedCandidates env (getLastRealmCandidatesCacheKey (selectedNetwork env)) = None"
  shows "\<exists>t e. selectRealm env = Some (t, Inl e)"
  using assms by (simp add: selectRealm_def Let_def del: waitForCandidates.simps)











section \<open>Realm selection: the third tier\<close>

text \<open>
  C2 (the code departs from the specification). With two live candidates, no query parameter
  and no cached realm, the algorithm has a pick (realm A), yet \<open>selectRealm\<close> returns
  no realm: \<open>pickCatalystRealm\<close> does not return the realm it computes.
\<close>

theorem selectRealm_scan_returns_nothing:
  "allCatalystCandidates envScan = [candA, candB] \<and>
   algorithmPick envScan [candA, candB] = realmOf candA \<and>
   selectRealm envScan =
     Some ([ReadLastCandidates ''last_realm_candidates_mainnet'', ReadLastRealm ''last_realm_mainnet'',
            PickCandidate [candA, candB] (0, 0)],
           Inr None)"
  by (simp add: example_defs selectRealm_def getConfiguredRealm_def pickCatalystRealm_def
        algorithmPick_def chainConfig_def Let_def)

section \<open>Candidate initialization: the version filter\<close>






section \<open>Sending: the swallowed room-not-joined error\<close>

lemmas peer_defs =
  peerIdle_def peerBusy_def peerFull_def peerTimeout_def notJoinedError_def timeoutError_def
  layerFullError_def connectionWith_def newConnection_def initializePeer_def statusHandler_def
  connectedPeersCount_def

text \<open>
  C4. A send that the transport accepts resolves; a send that it rejects with an error
  whose message is a string starting with the room-not-joined phrase resolves as well;
  a send that it rejects with any other error rejects with that same error.
\<close>

theorem sendData_swallows_room_not_joined:
  assumes "peer c = Some p"
  shows "(rejects p (SendMessage topic payload typeName) = None \<longrightarrow>
            fst (sendData topic payload typeName c) = Inr ()) \<and>
         (\<forall>e. rejects p (SendMessage topic payload typeName) = Some e \<longrightarrow>
            (\<exists>m. message e = JString m \<and> prefix ''cannot send a message in a room not joined'' m) \<longrightarrow>
            fst (sendData topic payload typeName c) = Inr ()) \<and>
         (\<forall>e. rejects p (SendMessage topic payload typeName) = Some e \<longrightarrow>
            \<not> (\<exists>m. message e = JString m \<and> prefix ''cannot send a message in a room not joined'' m) \<longrightarrow>
            fst (sendData topic payload typeName c) = Inl e)"
  using assms
  by (auto simp: sendData_def peerCall_def roomNotJoined_def Let_def split: js_value.splits)

text \<open>
  C4, witness: a message to the room just left is swallowed, a message that fails with
  a timeout is rethrown.
\<close>

theorem sendData_swallows_room_not_joined_witness:
  "peer (connectionWith peerIdle) = Some peerIdle \<and>
   rejects peerIdle (SendMessage ''left'' [1, 2] ''chat'') = Some notJoinedError \<and>
   fst (sendData ''left'' [1, 2] ''chat'' (connectionWith peerIdle)) = Inr () \<and>
   rejects peerIdle (SendMessage ''down'' [1, 2] ''chat'') = Some timeoutError \<and>
   fst (sendData ''down'' [1, 2] ''chat'' (connectionWith peerIdle)) = Inl timeoutError"
proof -
  have p: "peer (connectionWith peerIdle) = Some peerIdle"
    by (simp add: peer_defs Let_def)
  have r1: "rejects peerIdle (SendMessage ''left'' [1, 2] ''chat'') = Some notJoinedError"
    by (simp add: peerIdle_def)
  have r2: "rejects peerIdle (SendMessage ''down'' [1, 2] ''chat'') = Some timeoutError"
    by (simp add: peerIdle_def)
  have m1: "\<exists>m. message notJoinedError = JString m \<and> prefix ''cannot send a message in a room not joined'' m"
    by (simp add: notJoinedError_def)
  have m2: "\<not> (\<exists>m. message timeoutError = JString m \<and> prefix ''cannot send a message in a room not joined'' m)"
    by (simp add: timeoutError_def)
  from sendData_swallows_room_not_joined [OF p, of "''left''" "[1, 2]" "''chat''"] r1 m1
  have s1: "fst (sendData ''left'' [1, 2] ''chat'' (connectionWith peerIdle)) = Inr ()"
    by blast
  from sendData_swallows_room_not_joined [OF p, of "''down''" "[1, 2]" "''chat''"] r2 m2
  have s2: "fst (sendData ''down'' [1, 2] ''chat'' (connectionWith peerIdle)) = Inl timeoutError"
    by blast
  from p r1 s1 r2 s2 show ?thesis
    by simp
qed

section \<open>Room reconciliation\<close>

lemma isSameRoom_roomOf: "isSameRoom room cur = (roomOf cur = room)"
  by (cases cur) (simp_all add: isSameRoom_def)

lemma peerCalls_append:
  "peerCalls (as @ bs) p =
     (case peerCalls as p of
        (r1, p1) \<Rightarrow>
          (case peerCalls bs p1 of
             (r2, p2) \<Rightarrow> ((case r1 of Inl e \<Rightarrow> Inl e | Inr _ \<Rightarrow> r2), p2)))"
  by (induction as arbitrary: p) (auto split: prod.splits sum.splits)

lemma peerCalls_append_ok:
  assumes "peerCalls (as @ bs) p = (Inr (), p2)"
  obtains p1 where "peerCalls as p = (Inr (), p1)" and "peerCalls bs p1 = (Inr (), p2)"
  using assms by (auto simp: peerCalls_append split: prod.splits sum.splits)

lemma peerCalls_joins:
  "peerCalls (map JoinRoom js) p = (Inr (), p1) \<Longrightarrow>
     set js \<subseteq> roomOf ` set (currentRooms p1) \<and>
     set (currentRooms p) \<subseteq> set (currentRooms p1) \<and>
     (\<forall>s. RoomId s \<in> set (currentRooms p1) \<longrightarrow> RoomId s \<in> set (currentRooms p) \<or> s \<in> set js)"
proof (induction js arbitrary: p)
  case Nil
  then show ?case by simp
next
  case (Cons j js)
  obtain r q where pc: "peerCall (JoinRoom j) p = (r, q)"
    by (cases "peerCall (JoinRoom j) p")
  obtain rs q' where rest: "peerCalls (map JoinRoom js) q = (rs, q')"
    by (cases "peerCalls (map JoinRoom js) q")
  from Cons.prems pc rest have r: "r = Inr ()" and rs: "rs = Inr ()" and q': "q' = p1"
    by (auto split: sum.splits)
  from pc r have acc: "rejects p (JoinRoom j) = None"
    by (auto simp: peerCall_def Let_def split: option.splits)
  with pc have q: "currentRooms q =
      (if j \<in> roomOf ` set (currentRooms p) then currentRooms p
       else currentRooms p @ [if roomsAsObjects p then RoomObject j else RoomId j])"
    by (auto simp: peerCall_def peerEffect_def Let_def)
  have ih: "set js \<subseteq> roomOf ` set (currentRooms p1) \<and>
     set (currentRooms q) \<subseteq> set (currentRooms p1) \<and>
     (\<forall>s. RoomId s \<in> set (currentRooms p1) \<longrightarrow> RoomId s \<in> set (currentRooms q) \<or> s \<in> set js)"
    using Cons.IH [of q] rest rs q' by simp
  have jq: "j \<in> roomOf ` set (currentRooms q)"
    using q by (auto simp: image_iff)
  have pq: "set (currentRooms p) \<subseteq> set (currentRooms q)"
    using q by auto
  have sq: "\<And>s. RoomId s \<in> set (currentRooms q) \<Longrightarrow> RoomId s \<in> set (currentRooms p) \<or> s = j"
    using q by (auto split: if_splits)
  show ?case
    using ih jq pq sq by (auto simp: image_iff) blast+
qed

lemma peerCalls_leaves:
  "peerCalls (map LeaveRoom ls) p = (Inr (), p2) \<Longrightarrow>
     currentRooms p2 = filter (\<lambda>c. roomOf c \<notin> set ls) (currentRooms p)"
proof (induction ls arbitrary: p)
  case Nil
  then show ?case by simp
next
  case (Cons l ls)
  obtain r q where pc: "peerCall (LeaveRoom l) p = (r, q)"
    by (cases "peerCall (LeaveRoom l) p")
  obtain rs q' where rest: "peerCalls (map LeaveRoom ls) q = (rs, q')"
    by (cases "peerCalls (map LeaveRoom ls) q")
  from Cons.prems pc rest have r: "r = Inr ()" and rs: "rs = Inr ()" and q': "q' = p2"
    by (auto split: sum.splits)
  from pc r have q: "currentRooms q = filter (\<lambda>c. roomOf c \<noteq> l) (currentRooms p)"
    by (auto simp: peerCall_def peerEffect_def Let_def split: option.splits)
  have "currentRooms p2 = filter (\<lambda>c. roomOf c \<notin> set ls) (currentRooms q)"
    using Cons.IH [of q] rest rs q' by simp
  with q show ?case
    by (simp add: conj_commute)
qed

lemma leaving_map: "leaving desired current = map LeaveRoom (leaveIds desired current)"
  by (induction current)
     (auto simp: leaving_def leaveIds_def list_ex_iff isSameRoom_roomOf split: room_ref.splits)

lemma set_leaveIds: "set (leaveIds desired current) = {s. RoomId s \<in> set current \<and> s \<notin> set desired}"
  by (auto simp: leaveIds_def split: room_ref.splits if_splits)

lemma joining_Nil: "joining desired current = [] \<longleftrightarrow> set desired \<subseteq> roomOf ` set current"
  by (auto simp: joining_def filter_empty_conv list_ex_iff isSameRoom_roomOf image_iff)

lemma leaving_Nil:
  "leaving desired current = [] \<longleftrightarrow> (\<forall>s. RoomId s \<in> set current \<longrightarrow> s \<in> set desired)"
proof -
  have "leaving desired current = [] \<longleftrightarrow> set (leaveIds desired current) = {}"
    by (simp add: leaving_map)
  also have "\<dots> \<longleftrightarrow> (\<forall>s. RoomId s \<in> set current \<longrightarrow> s \<in> set desired)"
    unfolding set_leaveIds by blast
  finally show ?thesis .
qed

lemma sync_settles:
  assumes ok: "peerCalls (joining X (currentRooms p) @ leaving X (currentRooms p)) p = (Inr (), p')"
  shows "joining X (currentRooms p') = [] \<and> leaving X (currentRooms p') = []"
proof -
  let ?js = "filter (\<lambda>room. \<not> list_ex (isSameRoom room) (currentRooms p)) X"
  let ?ls = "leaveIds X (currentRooms p)"
  have j: "joining X (currentRooms p) = map JoinRoom ?js"
    by (simp add: joining_def)
  from ok obtain p1 where
    s1: "peerCalls (map JoinRoom ?js) p = (Inr (), p1)" and
    s2: "peerCalls (map LeaveRoom ?ls) p1 = (Inr (), p')"
    unfolding j leaving_map by (rule peerCalls_append_ok)
  note J = peerCalls_joins [OF s1]
  note L = peerCalls_leaves [OF s2]
  have js: "set ?js = {x \<in> set X. x \<notin> roomOf ` set (currentRooms p)}"
    by (auto simp: list_ex_iff isSameRoom_roomOf image_iff)
  have cover: "set X \<subseteq> roomOf ` set (currentRooms p1)"
  proof
    fix x assume x: "x \<in> set X"
    show "x \<in> roomOf ` set (currentRooms p1)"
    proof (cases "x \<in> roomOf ` set (currentRooms p)")
      case True
      with J show ?thesis by auto
    next
      case False
      with x js have "x \<in> set ?js" by simp
      with J show ?thesis by blast
    qed
  qed
  have a: "set X \<subseteq> roomOf ` set (currentRooms p')"
  proof
    fix x assume x: "x \<in> set X"
    with cover obtain c where c: "c \<in> set (currentRooms p1)" "roomOf c = x"
      by auto
    from x have "x \<notin> set ?ls"
      by (simp add: set_leaveIds)
    with c L have "c \<in> set (currentRooms p')"
      by simp
    with c show "x \<in> roomOf ` set (currentRooms p')"
      by auto
  qed
  have b: "\<forall>s. RoomId s \<in> set (currentRooms p') \<longrightarrow> s \<in> set X"
  proof (intro allI impI)
    fix s assume s: "RoomId s \<in> set (currentRooms p')"
    with L have in1: "RoomId s \<in> set (currentRooms p1)" and nl: "s \<notin> set ?ls"
      by auto
    from in1 J have "RoomId s \<in> set (currentRooms p) \<or> s \<in> set ?js"
      by blast
    then show "s \<in> set X"
    proof
      assume "RoomId s \<in> set (currentRooms p)"
      with nl show ?thesis by (simp add: set_leaveIds)
    next
      assume "s \<in> set ?js"
      then show ?thesis by simp
    qed
  qed
  from a b show ?thesis
    by (simp add: joining_Nil leaving_Nil)
qed

text \<open>
  C5. When \<open>setTopics X\<close> has completed (every join and leave it issued was accepted by
  the peer, whose room list then reflects them), the joins and leaves that a second
  \<open>setTopics X\<close> computes are none, and the second call leaves the connection and the
  peer, its record of calls included, as they were.
\<close>

theorem setTopics_idempotent:
  assumes "setTopics X c = (Inr (), c')"
  shows "\<exists>p'. peer c' = Some p' \<and>
           joining X (currentRooms p') @ leaving X (currentRooms p') = [] \<and>
           setTopics X c' = (Inr (), c')"
proof -
  from assms obtain p where p: "peer c = Some p"
    by (auto simp: setTopics_def syncRoomsWithPeer_def split: option.splits)
  obtain r p' where run: "peerCalls (joining X (currentRooms p) @ leaving X (currentRooms p)) p = (r, p')"
    by (cases "peerCalls (joining X (currentRooms p) @ leaving X (currentRooms p)) p")
  from assms p run have r: "r = Inr ()" and c': "c' = c\<lparr>rooms := X, peer := Some p'\<rparr>"
    by (auto simp: setTopics_def syncRoomsWithPeer_def)
  from run r have settled: "joining X (currentRooms p') = [] \<and> leaving X (currentRooms p') = []"
    by (intro sync_settles) simp
  have "setTopics X c' = (Inr (), c')"
    using settled by (simp add: c' setTopics_def syncRoomsWithPeer_def)
  with settled c' show ?thesis
    by simp
qed

text \<open>
  C5, witness: desired rooms \<open>a\<close>, \<open>island\<close>, \<open>a\<close> on a peer in \<open>old\<close> and
  \<open>island\<close>: the first call joins \<open>a\<close> (once per occurrence) and leaves \<open>old\<close>; the
  second call changes nothing.
\<close>

theorem setTopics_idempotent_witness:
  "fst (setTopics [''a'', ''island'', ''a''] (connectionWith peerIdle)) = Inr () \<and>
   map_option calls (peer (snd (setTopics [''a'', ''island'', ''a''] (connectionWith peerIdle)))) =
     Some [JoinRoom ''a'', JoinRoom ''a'', LeaveRoom ''old''] \<and>
   map_option currentRooms (peer (snd (setTopics [''a'', ''island'', ''a''] (connectionWith peerIdle)))) =
     Some [RoomObject ''island'', RoomId ''a''] \<and>
   setTopics [''a'', ''island'', ''a''] (snd (setTopics [''a'', ''island'', ''a''] (connectionWith peerIdle))) =
     (Inr (), snd (setTopics [''a'', ''island'', ''a''] (connectionWith peerIdle)))"
proof -
  let ?first = "setTopics [''a'', ''island'', ''a''] (connectionWith peerIdle)"
  have ev: "fst ?first = Inr () \<and>
      map_option calls (peer (snd ?first)) = Some [JoinRoom ''a'', JoinRoom ''a'', LeaveRoom ''old''] \<and>
      map_option currentRooms (peer (snd ?first)) = Some [RoomObject ''island'', RoomId ''a'']"
    by (simp add: peer_defs setTopics_def syncRoomsWithPeer_def joining_def leaving_def
          isSameRoom_def peerCall_def peerEffect_def Let_def)
  then have completed: "?first = (Inr (), snd ?first)"
    by (simp add: prod_eq_iff)
  from setTopics_idempotent [OF completed] ev show ?thesis
    by blast
qed

section \<open>Connecting\<close>

text \<open>
  C7. On a peer with a non-zero connected count \<open>connect\<close> reports \<open>connected\<close> and
  returns true without a call on the peer. On a peer with none it awaits the
  establishment: when that succeeds it reports \<open>connected\<close> and returns true; when it
  is rejected with an error, \<open>connect\<close> reports \<open>realm-full\<close> exactly when the error's
  response status is \<open>layer_is_full\<close> and \<open>error\<close> otherwise, and rethrows that error.
\<close>

theorem connect_outcomes:
  assumes "peer c = Some p"
  shows "(connectedCount p \<noteq> 0 \<longrightarrow>
            connect c =
              (Inr True,
               c\<lparr>statusLog := statusLog c @
                    [(\<lparr>status = ''connected'', connectedPeers = connectedCount p\<rparr>, Some p)]\<rparr>)) \<and>
         (connectedCount p = 0 \<longrightarrow> rejects p (AwaitConnectionEstablished 60000) = None \<longrightarrow>
            fst (connect c) = Inr True \<and>
            map_option calls (peer (snd (connect c))) =
              Some (calls p @ [AwaitConnectionEstablished 60000]) \<and>
            map fst (statusLog (snd (connect c))) =
              map fst (statusLog c) @
                [\<lparr>status = ''connected'', connectedPeers = establishedCount p\<rparr>]) \<and>
         (\<forall>e. connectedCount p = 0 \<longrightarrow> rejects p (AwaitConnectionEstablished 60000) = Some e \<longrightarrow>
            fst (connect c) = Inl e \<and>
            map fst (statusLog (snd (connect c))) =
              map fst (statusLog c) @
                [\<lparr>status = (if responseJson e = Some (JString ''layer_is_full'')
                             then ''realm-full'' else ''error''),
                  connectedPeers = 0\<rparr>])"
  using assms
  by (auto simp: connect_def connectSucceeded_def connectFailed_def statusHandler_def
        connectedPeersCount_def peerCall_def peerEffect_def Let_def)

text \<open>
  C7, witness: a busy peer (3 connections), an idle peer that gets connected, a peer
  refused because the layer is full, and a peer whose establishment times out.
\<close>

theorem connect_outcomes_witness:
  "peer (connectionWith peerBusy) = Some peerBusy \<and>
   connect (connectionWith peerBusy) =
     (Inr True,
      (connectionWith peerBusy)
        \<lparr>statusLog :=
           [(\<lparr>status = ''connecting'', connectedPeers = 0\<rparr>, None),
            (\<lparr>status = ''connected'', connectedPeers = 3\<rparr>, Some peerBusy)]\<rparr>) \<and>
   fst (connect (connectionWith peerIdle)) = Inr True \<and>
   map fst (statusLog (snd (connect (connectionWith peerIdle)))) =
     [\<lparr>status = ''connecting'', connectedPeers = 0\<rparr>, \<lparr>status = ''connected'', connectedPeers = 2\<rparr>] \<and>
   fst (connect (connectionWith peerFull)) = Inl layerFullError \<and>
   map fst (statusLog (snd (connect (connectionWith peerFull)))) =
     [\<lparr>status = ''connecting'', connectedPeers = 0\<rparr>, \<lparr>status = ''realm-full'', connectedPeers = 0\<rparr>] \<and>
   fst (connect (connectionWith peerTimeout)) = Inl timeoutError \<and>
   map fst (statusLog (snd (connect (connectionWith peerTimeout)))) =
     [\<lparr>status = ''connecting'', connectedPeers = 0\<rparr>, \<lparr>status = ''error'', connectedPeers = 0\<rparr>]"
proof -
  have busy: "peer (connectionWith peerBusy) = Some peerBusy"
    by (simp add: peer_defs Let_def)
  have idle: "peer (connectionWith peerIdle) = Some peerIdle"
    by (simp add: peer_defs Let_def)
  have full: "peer (connectionWith peerFull) = Some peerFull"
    by (simp add: peer_defs Let_def)
  have timeout: "peer (connectionWith peerTimeout) = Some peerTimeout"
    by (simp add: peer_defs Let_def)
  have logs: "statusLog (connectionWith peerBusy) = [(\<lparr>status = ''connecting'', connectedPeers = 0\<rparr>, None)]"
    "map fst (statusLog (connectionWith peerIdle)) = [\<lparr>status = ''connecting'', connectedPeers = 0\<rparr>]"
    "map fst (statusLog (connectionWith peerFull)) = [\<lparr>status = ''connecting'', connectedPeers = 0\<rparr>]"
    "map fst (statusLog (connectionWith peerTimeout)) = [\<lparr>status = ''connecting'', connectedPeers = 0\<rparr>]"
    by (simp_all add: peer_defs Let_def)
  have facts:
    "connectedCount peerBusy = 3" "connectedCount peerIdle = 0" "establishedCount peerIdle = 2"
    "rejects peerIdle (AwaitConnectionEstablished 60000) = None"
    "connectedCount peerFull = 0" "rejects peerFull (AwaitConnectionEstablished 60000) = Some layerFullError"
    "connectedCount peerTimeout = 0" "rejects peerTimeout (AwaitConnectionEstablished 60000) = Some timeoutError"
    "responseJson layerFullError = Some (JString ''layer_is_full'')"
    "responseJson timeoutError = None"
    by (simp_all add: peerBusy_def peerIdle_def peerFull_def peerTimeout_def layerFullError_def
          timeoutError_def)
  from connect_outcomes [OF busy] connect_outcomes [OF idle] connect_outcomes [OF full]
    connect_outcomes [OF timeout] busy logs facts
  show ?thesis
    by simp
qed

section \<open>Status reports\<close>

lemma faithful_report: "faithful (\<lparr>status = s, connectedPeers = connectedPeersCount c\<rparr>, peer c)"
  by (simp add: faithful_def connectedPeersCount_def)

lemma statusLog_statusHandler: "statusLog (statusHandler st c) = statusLog c @ [(st, peer c)]"
  by (simp add: statusHandler_def)

lemma statusLog_initializePeer:
  "statusLog (initializePeer created c) =
     statusLog c @ [(\<lparr>status = ''connecting'', connectedPeers = connectedPeersCount c\<rparr>, peer c)]"
  by (simp add: initializePeer_def Let_def statusHandler_def)

lemma statusLog_connect:
  "\<exists>s. statusLog (snd (connect c)) =
          statusLog c @ [(\<lparr>status = s, connectedPeers = connectedPeersCount (snd (connect c))\<rparr>,
                          peer (snd (connect c)))]"
  by (auto simp: connect_def connectSucceeded_def connectFailed_def statusHandler_def
        connectedPeersCount_def split: option.splits sum.splits prod.splits)

lemma statusLog_syncRoomsWithPeer: "statusLog (snd (syncRoomsWithPeer c)) = statusLog c"
  by (auto simp: syncRoomsWithPeer_def split: option.splits prod.splits)

lemma statusLog_changeRealm:
  "\<exists>es. statusLog (snd (changeRealm r url created c)) =
           statusLog c @
             (\<lparr>status = ''connecting'', connectedPeers = connectedPeersCount c\<rparr>, peer c) # es \<and>
         list_all faithful es"
proof -
  define c1 where "c1 = statusHandler \<lparr>status = ''connecting'', connectedPeers = connectedPeersCount c\<rparr> c"
  define disposed where "disposed =
            (case peer c1 of
               None \<Rightarrow> (Inr (), c1)
             | Some p \<Rightarrow> (case peerCall Dispose p of (res, p') \<Rightarrow> (res, c1\<lparr>peer := Some p'\<rparr>)))"
  obtain res c2 where d: "disposed = (res, c2)"
    by (cases disposed)
  have l1: "statusLog c1 =
      statusLog c @ [(\<lparr>status = ''connecting'', connectedPeers = connectedPeersCount c\<rparr>, peer c)]"
    by (simp add: c1_def statusLog_statusHandler)
  have l2: "statusLog c2 = statusLog c1"
    using d by (auto simp: disposed_def split: option.splits prod.splits)
  have cr: "changeRealm r url created c =
     (case res of
        Inl e \<Rightarrow> (Inl e, c2)
      | Inr _ \<Rightarrow>
         (case connect (initializePeer created (c2\<lparr>currentRealm := r, lighthouseUrl := url\<rparr>)) of
            (Inl e, c4) \<Rightarrow> (Inl e, c4)
          | (Inr _, c4) \<Rightarrow> syncRoomsWithPeer c4))"
    using d
    by (simp add: changeRealm_def Let_def c1_def [symmetric] disposed_def [symmetric]
          split: sum.splits)
  show ?thesis
  proof (cases res)
    case (Inl e)
    with cr l1 l2 show ?thesis by simp
  next
    case (Inr u)
    define c2' where "c2' = c2\<lparr>currentRealm := r, lighthouseUrl := url\<rparr>"
    define c3 where "c3 = initializePeer created c2'"
    have l3: "statusLog c3 =
        statusLog c2 @ [(\<lparr>status = ''connecting'', connectedPeers = connectedPeersCount c2'\<rparr>, peer c2')]"
      by (simp add: c3_def c2'_def statusLog_initializePeer)
    obtain r4 c4 where k: "connect c3 = (r4, c4)"
      by (cases "connect c3")
    from statusLog_connect [of c3] k obtain s where
      l4: "statusLog c4 =
             statusLog c3 @ [(\<lparr>status = s, connectedPeers = connectedPeersCount c4\<rparr>, peer c4)]"
      by auto
    have final: "statusLog (snd (changeRealm r url created c)) = statusLog c4"
      using Inr cr k
      by (cases r4) (simp_all add: c3_def [symmetric] c2'_def [symmetric] statusLog_syncRoomsWithPeer)
    show ?thesis
      using final l1 l2 l3 l4 by (simp add: faithful_report)
  qed
qed

text \<open>
  C10. Every report made by the constructor, by \<open>connect\<close> (on success and on
  failure), by \<open>initializePeer\<close>, by the status callback handed to the peer and by
  \<open>changeRealm\<close> (its own first report and those of the steps it runs) carries the
  connected count of the peer the connection holds at that moment, or 0 when it holds
  none; each of these operations makes at least one report.
\<close>

theorem status_reports_carry_connected_count:
  "statusLog (newConnection r url island created) =
     [(\<lparr>status = ''connecting'', connectedPeers = 0\<rparr>, None)] \<and>
   (\<exists>e. statusLog (snd (connect c)) = statusLog c @ [e] \<and> faithful e) \<and>
   (\<exists>e. statusLog (initializePeer created c) = statusLog c @ [e] \<and> faithful e) \<and>
   (\<exists>e. statusLog (peerStatusHandler st c) = statusLog c @ [e] \<and> faithful e) \<and>
   (\<exists>es. statusLog (snd (changeRealm r url created c)) = statusLog c @ es \<and>
          es \<noteq> [] \<and> list_all faithful es)"
proof -
  have new: "statusLog (newConnection r url island created) =
     [(\<lparr>status = ''connecting'', connectedPeers = 0\<rparr>, None)]"
    by (simp add: newConnection_def statusLog_initializePeer connectedPeersCount_def)
  have con: "\<exists>e. statusLog (snd (connect c)) = statusLog c @ [e] \<and> faithful e"
    using statusLog_connect [of c] faithful_report by metis
  have ini: "\<exists>e. statusLog (initializePeer created c) = statusLog c @ [e] \<and> faithful e"
    by (simp add: statusLog_initializePeer faithful_report)
  have cb: "\<exists>e. statusLog (peerStatusHandler st c) = statusLog c @ [e] \<and> faithful e"
    by (simp add: peerStatusHandler_def statusLog_statusHandler faithful_report)
  from statusLog_changeRealm [of r url created c] obtain es where
    es: "statusLog (snd (changeRealm r url created c)) =
           statusLog c @
             (\<lparr>status = ''connecting'', connectedPeers = connectedPeersCount c\<rparr>, peer c) # es"
      "list_all faithful es"
    by blast
  then have chg: "\<exists>es. statusLog (snd (changeRealm r url created c)) = statusLog c @ es \<and>
          es \<noteq> [] \<and> list_all faithful es"
    using faithful_report [of "''connecting''" c]
    by (intro exI [of _ "(\<lparr>status = ''connecting'', connectedPeers = connectedPeersCount c\<rparr>, peer c) # es"])
       simp
  from new con ini cb chg show ?thesis
    by blast
qed

text \<open>
  C10, witness: a connection is created on an idle peer and then changes realm to a
  peer with 3 connections: four reports, each with the count of the peer held then.
\<close>

theorem status_reports_carry_connected_count_witness:
  "map fst (statusLog (snd (changeRealm (realmOf candB) ''https://b.example/comms'' peerBusy
                              (connectionWith peerIdle)))) =
     [\<lparr>status = ''connecting'', connectedPeers = 0\<rparr>,
      \<lparr>status = ''connecting'', connectedPeers = 0\<rparr>,
      \<lparr>status = ''connecting'', connectedPeers = 0\<rparr>,
      \<lparr>status = ''connected'', connectedPeers = 3\<rparr>] \<and>
   list_all faithful
     (statusLog (snd (changeRealm (realmOf candB) ''https://b.example/comms'' peerBusy
                        (connectionWith peerIdle))))"
proof -
  let ?c = "connectionWith peerIdle"
  let ?out = "snd (changeRealm (realmOf candB) ''https://b.example/comms'' peerBusy ?c)"
  have l0: "statusLog ?c = [(\<lparr>status = ''connecting'', connectedPeers = 0\<rparr>, None)]"
    by (simp add: peer_defs Let_def)
  have f0: "list_all faithful (statusLog ?c)"
    by (simp add: l0 faithful_def)
  from status_reports_carry_connected_count
         [where c = "?c" and created = peerBusy and r = "realmOf candB"
            and url = "''https://b.example/comms''"]
  obtain es where "statusLog ?out = statusLog ?c @ es" and "list_all faithful es"
    by blast
  with f0 have f: "list_all faithful (statusLog ?out)"
    by simp
  have ev: "map fst (statusLog ?out) =
     [\<lparr>status = ''connecting'', connectedPeers = 0\<rparr>,
      \<lparr>status = ''connecting'', connectedPeers = 0\<rparr>,
      \<lparr>status = ''connecting'', connectedPeers = 0\<rparr>,
      \<lparr>status = ''connected'', connectedPeers = 3\<rparr>]"
    by (simp add: peer_defs changeRealm_def connect_def connectSucceeded_def peerCall_def
          peerEffect_def syncRoomsWithPeer_def joining_def leaving_def Let_def)
  from ev f show ?thesis
    by simp
qed

section \<open>Inbound messages: one handler at most, and no exception\<close>

lemmas comms_defs =
  commsEnv_def receiverIdle_def chatMessage_def sceneMessage_def brokenProfileResponse_def
  futureMessage_def syntaxError_def decodeError_def

lemma dispatch_known:
  assumes "handlerOf (messageData m) = Some h" and "payloadMaps env who c (messageData m)"
  shows "\<exists>pkg. handled (snd (dispatch env who sequenceId m c)) = handled c @ [(h, pkg)] \<and>
               logged (snd (dispatch env who sequenceId m c)) = logged c"
  using assms
  by (cases "messageData m")
     (auto simp: dispatch_def invoke_def payloadMaps_def peerCall_def peerEffect_def Let_def
           split: sum.splits)

lemma dispatch_unmapped:
  assumes "handlerOf (messageData m) = Some h" and "\<not> payloadMaps env who c (messageData m)"
  shows "\<exists>e. fst (dispatch env who sequenceId m c) = Inl e \<and>
             handled (snd (dispatch env who sequenceId m c)) = handled c \<and>
             logged (snd (dispatch env who sequenceId m c)) = logged c"
  using assms
  by (cases "messageData m")
     (auto simp: dispatch_def invoke_def payloadMaps_def peerCall_def peerEffect_def Let_def
           split: sum.splits)

lemma dispatch_unknown:
  assumes "messageData m = NO_DATA n"
  shows "dispatch env who sequenceId m c = (Inr (), c\<lparr>logged := logged c @ [WarnUnknownType n]\<rparr>)"
  using assms by (simp add: dispatch_def)

lemma dispatch_peer:
  "connectedCount (receiverPeer (snd (dispatch env who sequenceId m c))) =
     connectedCount (receiverPeer c) \<and>
   currentRooms (receiverPeer (snd (dispatch env who sequenceId m c))) =
     currentRooms (receiverPeer c)"
  by (cases "messageData m")
     (auto simp: dispatch_def invoke_def peerCall_def peerEffect_def Let_def
           split: sum.splits option.splits)

text \<open>
  The type of the package a handler receives, case by case: the name of the kind,
  except for scene data, which is handed to the scene handler as \<open>chat\<close>.
\<close>

lemma dispatch_package_type:
  assumes "handlerOf (messageData m) = Some h" and "payloadMaps env who c (messageData m)"
  shows "\<exists>pkg. handled (snd (dispatch env who sequenceId m c)) = handled c @ [(h, pkg)] \<and>
               sender pkg = who \<and> time pkg = messageTime m \<and>
               Some (type pkg) =
                 (case messageData m of SCENE_DATA _ _ \<Rightarrow> Some ''chat'' | d \<Rightarrow> kindOf d)"
  using assms
  by (cases "messageData m")
     (auto simp: dispatch_def invoke_def payloadMaps_def peerCall_def peerEffect_def Let_def
           createPackage_def split: sum.splits)

lemma peerCallback_result: "fst (peerCallback env who room payload sequenceId c) = Inr ()"
  by (auto simp: peerCallback_def split: sum.splits prod.splits)

lemma peerCallback_decoded:
  assumes "deserializeBinary env payload = Inr m"
  shows "handled (snd (peerCallback env who room payload sequenceId c)) =
           handled (snd (dispatch env who sequenceId m c)) \<and>
         receiverPeer (snd (peerCallback env who room payload sequenceId c)) =
           receiverPeer (snd (dispatch env who sequenceId m c)) \<and>
         logged (snd (peerCallback env who room payload sequenceId c)) =
           logged (snd (dispatch env who sequenceId m c)) @
             (case fst (dispatch env who sequenceId m c) of
                Inl e \<Rightarrow> [ErrorProcessing who room e] | Inr _ \<Rightarrow> [])"
  using assms by (auto simp: peerCallback_def split: sum.splits prod.splits)

lemma peerCallback_undecoded:
  assumes "deserializeBinary env payload = Inl e"
  shows "peerCallback env who room payload sequenceId c =
           (Inr (), c\<lparr>logged := logged c @ [ErrorProcessing who room e]\<rparr>)"
  using assms by (simp add: peerCallback_def)

text \<open>
  C9 (as amended). For every inbound packet the callback returns without an exception
  and invokes at most one handler. A decoded message of one of the seven known data
  cases whose payload maps without an exception reaches exactly one handler, the one of
  its data case; when the mapping throws (a serialized profile that does not parse, a
  position update the peer rejects) no handler is invoked and the error is logged. A
  decoded message of any other data case is logged with a warning and reaches no
  handler; a payload that does not decode is logged as an error and reaches no handler.
  The peer's connections and rooms are as before.
\<close>

theorem peerCallback_one_handler:
  "fst (peerCallback env who room payload sequenceId c) = Inr () \<and>
   (handled (snd (peerCallback env who room payload sequenceId c)) = handled c \<or>
    (\<exists>h pkg. handled (snd (peerCallback env who room payload sequenceId c)) = handled c @ [(h, pkg)])) \<and>
   (\<forall>m h. deserializeBinary env payload = Inr m \<longrightarrow> handlerOf (messageData m) = Some h \<longrightarrow>
      payloadMaps env who c (messageData m) \<longrightarrow>
      (\<exists>pkg. handled (snd (peerCallback env who room payload sequenceId c)) = handled c @ [(h, pkg)])) \<and>
   (\<forall>m h. deserializeBinary env payload = Inr m \<longrightarrow> handlerOf (messageData m) = Some h \<longrightarrow>
      \<not> payloadMaps env who c (messageData m) \<longrightarrow>
      handled (snd (peerCallback env who room payload sequenceId c)) = handled c \<and>
      (\<exists>e. logged (snd (peerCallback env who room payload sequenceId c)) =
              logged c @ [ErrorProcessing who room e])) \<and>
   (\<forall>m n. deserializeBinary env payload = Inr m \<longrightarrow> messageData m = NO_DATA n \<longrightarrow>
      peerCallback env who room payload sequenceId c =
        (Inr (), c\<lparr>logged := logged c @ [WarnUnknownType n]\<rparr>)) \<and>
   (\<forall>e. deserializeBinary env payload = Inl e \<longrightarrow>
      peerCallback env who room payload sequenceId c =
        (Inr (), c\<lparr>logged := logged c @ [ErrorProcessing who room e]\<rparr>)) \<and>
   connectedCount (receiverPeer (snd (peerCallback env who room payload sequenceId c))) =
     connectedCount (receiverPeer c) \<and>
   currentRooms (receiverPeer (snd (peerCallback env who room payload sequenceId c))) =
     currentRooms (receiverPeer c)"
proof -
  let ?out = "peerCallback env who room payload sequenceId c"
  have one: "handled (snd ?out) = handled c \<or> (\<exists>h pkg. handled (snd ?out) = handled c @ [(h, pkg)])"
  proof (cases "deserializeBinary env payload")
    case (Inl e)
    then show ?thesis by (simp add: peerCallback_undecoded)
  next
    case (Inr m)
    show ?thesis
    proof (cases "handlerOf (messageData m)")
      case None
      then obtain n where "messageData m = NO_DATA n"
        by (cases "messageData m") simp_all
      with Inr show ?thesis
        by (simp add: peerCallback_decoded dispatch_unknown)
    next
      case (Some h)
      show ?thesis
      proof (cases "payloadMaps env who c (messageData m)")
        case True
        from dispatch_known [OF Some True] Inr show ?thesis
          by (auto simp: peerCallback_decoded)
      next
        case False
        from dispatch_unmapped [OF Some False] Inr show ?thesis
          by (auto simp: peerCallback_decoded)
      qed
    qed
  qed
  have known: "\<forall>m h. deserializeBinary env payload = Inr m \<longrightarrow> handlerOf (messageData m) = Some h \<longrightarrow>
      payloadMaps env who c (messageData m) \<longrightarrow>
      (\<exists>pkg. handled (snd ?out) = handled c @ [(h, pkg)])"
    using dispatch_known by (fastforce simp: peerCallback_decoded)
  have unmapped: "\<forall>m h. deserializeBinary env payload = Inr m \<longrightarrow> handlerOf (messageData m) = Some h \<longrightarrow>
      \<not> payloadMaps env who c (messageData m) \<longrightarrow>
      handled (snd ?out) = handled c \<and>
      (\<exists>e. logged (snd ?out) = logged c @ [ErrorProcessing who room e])"
  proof (intro allI impI)
    fix m h
    assume d: "deserializeBinary env payload = Inr m" and h: "handlerOf (messageData m) = Some h"
      and n: "\<not> payloadMaps env who c (messageData m)"
    from dispatch_unmapped [OF h n, of sequenceId] d
    show "handled (snd ?out) = handled c \<and>
      (\<exists>e. logged (snd ?out) = logged c @ [ErrorProcessing who room e])"
      by (auto simp: peerCallback_decoded)
  qed
  have unknown: "\<forall>m n. deserializeBinary env payload = Inr m \<longrightarrow> messageData m = NO_DATA n \<longrightarrow>
      ?out = (Inr (), c\<lparr>logged := logged c @ [WarnUnknownType n]\<rparr>)"
    by (simp add: peerCallback_def dispatch_unknown)
  have undecoded: "\<forall>e. deserializeBinary env payload = Inl e \<longrightarrow>
      ?out = (Inr (), c\<lparr>logged := logged c @ [ErrorProcessing who room e]\<rparr>)"
    by (simp add: peerCallback_undecoded)
  have alive: "connectedCount (receiverPeer (snd ?out)) = connectedCount (receiverPeer c) \<and>
     currentRooms (receiverPeer (snd ?out)) = currentRooms (receiverPeer c)"
  proof (cases "deserializeBinary env payload")
    case (Inl e)
    then show ?thesis by (simp add: peerCallback_undecoded)
  next
    case (Inr m)
    with dispatch_peer [of env who sequenceId m c] show ?thesis
      by (simp add: peerCallback_decoded)
  qed
  from peerCallback_result one known unmapped unknown undecoded alive show ?thesis
    by blast
qed

text \<open>
  C9, witness: a chat message reaches the chat handler and no other; a message of an
  unknown data case and a payload that does not decode reach none and are logged.
\<close>

theorem peerCallback_one_handler_witness:
  "deserializeBinary commsEnv [1] = Inr chatMessage \<and>
   handlerOf (messageData chatMessage) = Some chatHandler \<and>
   payloadMaps commsEnv ''peer1'' receiverIdle (messageData chatMessage) \<and>
   peerCallback commsEnv ''peer1'' ''room'' [1] 0 receiverIdle =
     (Inr (),
      receiverIdle\<lparr>handled :=
        [(chatHandler,
          \<lparr>sender = ''peer1'', time = 1000, type = ''chat'', data = ChatMessage ''m1'' ''hello''\<rparr>)]\<rparr>) \<and>
   deserializeBinary commsEnv [9] = Inr futureMessage \<and>
   messageData futureMessage = NO_DATA 9 \<and>
   peerCallback commsEnv ''peer1'' ''room'' [9] 0 receiverIdle =
     (Inr (), receiverIdle\<lparr>logged := [WarnUnknownType 9]\<rparr>) \<and>
   deserializeBinary commsEnv [] = Inl decodeError \<and>
   peerCallback commsEnv ''peer1'' ''room'' [] 0 receiverIdle =
     (Inr (), receiverIdle\<lparr>logged := [ErrorProcessing ''peer1'' ''room'' decodeError]\<rparr>)"
proof -
  have chat: "deserializeBinary commsEnv [1] = Inr chatMessage"
    "handlerOf (messageData chatMessage) = Some chatHandler"
    "payloadMaps commsEnv ''peer1'' receiverIdle (messageData chatMessage)"
    by (simp_all add: comms_defs payloadMaps_def)
  have future: "deserializeBinary commsEnv [9] = Inr futureMessage"
    "messageData futureMessage = NO_DATA 9"
    by (simp_all add: comms_defs)
  have broken: "deserializeBinary commsEnv [] = Inl decodeError"
    by (simp add: comms_defs)
  have delivered: "peerCallback commsEnv ''peer1'' ''room'' [1] 0 receiverIdle =
     (Inr (),
      receiverIdle\<lparr>handled :=
        [(chatHandler,
          \<lparr>sender = ''peer1'', time = 1000, type = ''chat'', data = ChatMessage ''m1'' ''hello''\<rparr>)]\<rparr>)"
    by (simp add: comms_defs peerCallback_def dispatch_def invoke_def createPackage_def)
  from peerCallback_one_handler
         [where env = commsEnv and who = "''peer1''" and room = "''room''" and payload = "[9]"
            and sequenceId = 0 and c = receiverIdle]
       future
  have dropped: "peerCallback commsEnv ''peer1'' ''room'' [9] 0 receiverIdle =
     (Inr (), receiverIdle\<lparr>logged := logged receiverIdle @ [WarnUnknownType 9]\<rparr>)"
    by blast
  from peerCallback_one_handler
         [where env = commsEnv and who = "''peer1''" and room = "''room''" and payload = "[]"
            and sequenceId = 0 and c = receiverIdle]
       broken
  have failed: "peerCallback commsEnv ''peer1'' ''room'' [] 0 receiverIdle =
     (Inr (), receiverIdle\<lparr>logged := logged receiverIdle @ [ErrorProcessing ''peer1'' ''room'' decodeError]\<rparr>)"
    by blast
  have nolog: "logged receiverIdle = []"
    by (simp add: receiverIdle_def)
  from chat future broken delivered dropped failed nolog show ?thesis
    by simp
qed

text \<open>
  C9, counterexample to the statement as the specification has it: a profile response, a known data case,
  whose serialized profile is not JSON. \<open>JSON.parse\<close> throws inside the \<open>try\<close>, the
  error is logged, and no handler is invoked: not exactly one.
\<close>

theorem peerCallback_known_kind_no_handler_counterexample:
  "deserializeBinary commsEnv [8] = Inr brokenProfileResponse \<and>
   handlerOf (messageData brokenProfileResponse) = Some profileResponseHandler \<and>
   kindOf (messageData brokenProfileResponse) = Some ''profileResponse'' \<and>
   peerCallback commsEnv ''peer1'' ''room'' [8] 0 receiverIdle =
     (Inr (), receiverIdle\<lparr>logged := [ErrorProcessing ''peer1'' ''room'' syntaxError]\<rparr>) \<and>
   handled (snd (peerCallback commsEnv ''peer1'' ''room'' [8] 0 receiverIdle)) = []"
  by (simp add: comms_defs peerCallback_def dispatch_def)

section \<open>Inbound messages: the type of the envelope\<close>

text \<open>
  C8 (the code departs from the specification). A scene-data message decodes, its kind is
  \<open>scene\<close>, and the package handed to the scene handler has type \<open>chat\<close>.
\<close>

theorem peerCallback_scene_delivered_as_chat:
  "deserializeBinary commsEnv [5] = Inr sceneMessage \<and>
   kindOf (messageData sceneMessage) = Some ''scene'' \<and>
   handled (snd (peerCallback commsEnv ''peer1'' ''scene-1'' [5] 0 receiverIdle)) =
     [(sceneMessageHandler,
       \<lparr>sender = ''peer1'', time = 1001, type = ''chat'', data = BusMessage ''scene-1'' ''ping''\<rparr>)]"
  by (simp add: comms_defs peerCallback_def dispatch_def invoke_def createPackage_def)

section \<open>Positions\<close>

text \<open>
  The message object that \<open>createPositionData\<close> fills gives back, through
  \<open>mapToPositionMessage\<close>, the tuple it was filled from, and conversely. The bytes of
  the message on the wire are written and read by the generated protobuf code.
\<close>

lemma mapToPositionMessage_createPositionData: "mapToPositionMessage (createPositionData p) = p"
  by (simp add: createPositionData_def mapToPositionMessage_def split: prod.splits)

lemma createPositionData_mapToPositionMessage: "createPositionData (mapToPositionMessage d) = d"
  by (simp add: createPositionData_def mapToPositionMessage_def)

end
